theory Spec2Isabelle
  imports Complex_Main "HOL-Library.Multiset"
begin

text \<open>
  \<open>lab_3.py\<close> is a dashboard over weekly vegetation-health records of the regions of
  Ukraine. Its class \<open>VHIAnalysis\<close> stores one raw file per region (\<open>load_data\<close>), parses
  the stored files and merges them into one table with canonical region numbers
  (\<open>data_frame\<close>, with its local \<open>process_csv\<close>), and filters and sorts that table
  (\<open>filter_data\<close>). This theory embeds these functions and proves what they do. The calls
  into pandas are modelled by what they return: \<open>pd.read_csv\<close> by the frame it yields for
  a file, \<open>sort_values\<close> by a parameter.
\<close>

section \<open>Python values used by \<open>lab_3.py\<close>\<close>

text \<open>
  Exceptions are values: every \<open>raise\<close> of the code (and of the library calls it makes) is
  an \<open>Inl\<close> result. \<open>ParserError\<close> is what \<open>pd.read_csv\<close> raises on a file it cannot
  tokenise.
\<close>

datatype error = IndexError | ValueError | KeyError | TypeError | ParserError

text \<open>
  File names and the text cells of a CSV file are \<open>string\<close>s, one \<open>char\<close> per character.
  A float64 cell that the code only copies and compares is \<open>real option\<close>: \<open>None\<close> is
  NaN (a missing field), \<open>Some x\<close> the number the float denotes.
\<close>

text \<open>
  The week is the one cell the code casts (\<open>astype(int)\<close>), and the cast tells the
  infinities from the numbers, so a week cell as read is a \<open>float64\<close>: a number, an
  infinity or NaN.
\<close>

datatype float64 = is_Fin: Fin (fin_value: real) | PosInf | NegInf | NaN

text \<open>
  \<open>s.split(sep)\<close> for a one-character separator: the pieces between the separators, read
  from left to right with the piece begun so far in \<open>piece\<close>.
\<close>

fun split_from :: "char \<Rightarrow> string \<Rightarrow> string \<Rightarrow> string list" where
  "split_from sep piece [] = [piece]"
| "split_from sep piece (c # cs) =
     (if c = sep then piece # split_from sep [] cs else split_from sep (piece @ [c]) cs)"

definition str_split :: "char \<Rightarrow> string \<Rightarrow> string list" where
  "str_split sep s = split_from sep [] s"

text \<open>\<open>os.path.basename\<close> (POSIX): what follows the last slash.\<close>

definition basename :: "string \<Rightarrow> string" where
  "basename p = rev (takeWhile (\<lambda>c. c \<noteq> CHR ''/'') (rev p))"

text \<open>
  \<open>int(s)\<close> on a string: surrounding whitespace is stripped, one sign is allowed, then
  decimal digits, where single underscores may separate groups of digits. Anything else
  (the empty string too) raises \<open>ValueError\<close>. The whitespace \<open>int\<close> strips is tab, line
  feed, vertical tab, form feed, carriage return and space, and of the characters from
  128 on those that Unicode counts as spaces (133 and 160 below 256); the separators 28 to
  31 are not stripped.
\<close>

definition is_space :: "char \<Rightarrow> bool" where
  "is_space c = (of_char c \<in> {9, 10, 11, 12, 13, 32, 133, 160 :: nat})"

definition is_digit :: "char \<Rightarrow> bool" where
  "is_digit c = (48 \<le> (of_char c :: nat) \<and> (of_char c :: nat) \<le> 57)"

definition strip :: "string \<Rightarrow> string" where
  "strip s = rev (dropWhile is_space (rev (dropWhile is_space s)))"

definition digits_val :: "string \<Rightarrow> int" where
  "digits_val ds = foldl (\<lambda>a c. 10 * a + (of_char c - 48)) 0 ds"

definition py_int :: "string \<Rightarrow> error + int" where
  "py_int s =
     (let t = strip s;
          signed = (t \<noteq> [] \<and> (hd t = CHR ''-'' \<or> hd t = CHR ''+''));
          u = (if signed then tl t else t);
          groups = str_split (CHR ''_'') u
      in if list_all (\<lambda>g. g \<noteq> [] \<and> list_all is_digit g) groups
         then Inr ((if signed \<and> hd t = CHR ''-'' then - 1 else 1) * digits_val (concat groups))
         else Inl ValueError)"

text \<open>A list comprehension over calls that may raise: the first exception ends it.\<close>

fun traverse :: "('a \<Rightarrow> error + 'b) \<Rightarrow> 'a list \<Rightarrow> error + 'b list" where
  "traverse f [] = Inr []"
| "traverse f (x # xs) =
     (case f x of
        Inl e \<Rightarrow> Inl e
      | Inr y \<Rightarrow> (case traverse f xs of Inl e \<Rightarrow> Inl e | Inr ys \<Rightarrow> Inr (y # ys)))"

section \<open>Data frames\<close>

text \<open>
  The columns \<open>Year, Week, SMN, SMT, VCI, TCI, VHI\<close> of a frame. The types of \<open>Year\<close> and
  \<open>Week\<close> change along the pipeline, so they are parameters:
  \<^item> as \<open>pd.read_csv\<close> returns a file of the source format, \<open>Year\<close> is an object column
    (the first row carries the text \<open><tt><pre>\<close> before the year and the footer line is
    \<open></pre></tt>\<close>), so a cell is a string, or NaN where the field is missing; \<open>Week\<close> and
    the five measures are numeric columns;
  \<^item> \<open>process_csv\<close> makes \<open>Week\<close> an integer and leaves \<open>Year\<close> a string;
  \<^item> \<open>run_analysis\<close> makes \<open>Year\<close> numeric (\<open>pd.to_numeric\<close>, then \<open>dropna\<close>) before it
    calls \<open>filter_data\<close>.
\<close>

record ('y, 'w) cells =
  Year :: 'y
  Week :: 'w
  SMN :: "real option"
  SMT :: "real option"
  VCI :: "real option"
  TCI :: "real option"
  VHI :: "real option"

text \<open>A row as read: \<open>self.columns\<close>, with the trailing unused column \<open>empty\<close>.\<close>

record ('y, 'w) raw_cells = "('y, 'w) cells" +
  empty_col :: "real option"

text \<open>A row of the dataset: the column \<open>region_num\<close> is added.\<close>

record ('y, 'w) region_cells = "('y, 'w) cells" +
  region_num :: int

type_synonym csv_row = "(string option, float64) raw_cells"
type_synonym data_row = "(string option, int) region_cells"
type_synonym query_row = "(real, int) region_cells"

text \<open>
  A raw file of the data folder: its path, and what \<open>pd.read_csv(file_path, header=1,
  names=self.columns)\<close> gives for it, the rows after the two header lines or the exception
  raised.
\<close>

record raw_file =
  file_path :: string
  read_csv :: "error + csv_row list"

section \<open>The fetcher's file name (\<open>load_data\<close>)\<close>

text \<open>
  \<open>file_name = f'vhi_id__{province_code}__{current_date}.csv'\<close>, where \<open>province_code\<close>
  and \<open>current_date\<close> stand for the texts the f-string inserts. The file is stored in
  \<open>self.base_folder\<close>, where \<open>data_frame\<close> finds it again under the path
  \<open>f"{self.base_folder}/..."\<close> that \<open>glob\<close> lists.
\<close>

definition file_name :: "string \<Rightarrow> string \<Rightarrow> string" where
  "file_name province_code current_date =
     ''vhi_id__'' @ province_code @ ''__'' @ current_date @ ''.csv''"

definition stored_path :: "string \<Rightarrow> string \<Rightarrow> string \<Rightarrow> string" where
  "stored_path base_folder province_code current_date =
     base_folder @ ''/'' @ file_name province_code current_date"

section \<open>The record parser (\<open>process_csv\<close>)\<close>

text \<open>\<open>region_num = int(filename.split('_')[2])\<close>\<close>

definition region_num_of :: "string \<Rightarrow> error + int" where
  "region_num_of path =
     (let filename = basename path; parts = str_split (CHR ''_'') filename
      in if 2 < length parts then py_int (parts ! 2) else Inl IndexError)"

text \<open>
  The cast of a float64 number to int64: the number is truncated towards zero, and a
  result outside the range of int64 comes out as the least int64.
\<close>

definition float_to_int64 :: "real \<Rightarrow> int" where
  "float_to_int64 x =
     (let t = (if 0 \<le> x then \<lfloor>x\<rfloor> else \<lceil>x\<rceil>)
      in if - (2 ^ 63) \<le> t \<and> t < 2 ^ 63 then t else - (2 ^ 63))"

text \<open>
  \<open>astype(int)\<close> on a float64 cell: a value that is not finite, NaN or an infinity, raises
  (\<open>IntCastingNaNError\<close>, a \<open>ValueError\<close>), a number is cast.
\<close>

definition astype_int :: "float64 \<Rightarrow> error + int" where
  "astype_int w =
     (case w of
        Fin x \<Rightarrow> Inr (float_to_int64 x)
      | PosInf \<Rightarrow> Inl ValueError
      | NegInf \<Rightarrow> Inl ValueError
      | NaN \<Rightarrow> Inl ValueError)"

text \<open>
  One row after \<open>drop(columns=['empty'])\<close>, \<open>insert(0, 'region_num', region_num)\<close> and the
  conversion of \<open>Week\<close>.
\<close>

definition to_row :: "int \<Rightarrow> csv_row \<Rightarrow> error + data_row" where
  "to_row region r =
     (case astype_int (Week r) of
        Inl e \<Rightarrow> Inl e
      | Inr w \<Rightarrow>
          Inr \<lparr>Year = Year r, Week = w, SMN = SMN r, SMT = SMT r, VCI = VCI r,
               TCI = TCI r, VHI = VHI r, region_num = region\<rparr>)"

text \<open>
  \<open>data.at[0, 'Year'] = data.at[0, 'Year'][9:]\<close>: on a frame without rows the label \<open>0\<close>
  is missing (\<open>KeyError\<close>), and a NaN cell cannot be sliced (\<open>TypeError\<close>).
\<close>

definition strip_first_year :: "csv_row list \<Rightarrow> error + csv_row list" where
  "strip_first_year data =
     (if data = [] then Inl KeyError
      else case Year (data ! 0) of
             None \<Rightarrow> Inl TypeError
           | Some y \<Rightarrow> Inr (data[0 := (data ! 0)\<lparr>Year := Some (drop 9 y)\<rparr>]))"

definition process_csv :: "raw_file \<Rightarrow> error + data_row list" where
  "process_csv file =
     (case region_num_of (file_path file) of
        Inl e \<Rightarrow> Inl e
      | Inr region \<Rightarrow>
         (case read_csv file of
            Inl e \<Rightarrow> Inl e
          | Inr data \<Rightarrow>
             (case strip_first_year data of
                Inl e \<Rightarrow> Inl e
              | Inr data1 \<Rightarrow>
                  traverse (to_row region)
                    (filter (\<lambda>r. VHI r \<noteq> Some (- 1)) (butlast data1)))))"

section \<open>The dataset builder (\<open>data_frame\<close>)\<close>

text \<open>\<open>drop_duplicates()\<close> keeps the first of equal rows, in the order of the frame.\<close>

definition drop_duplicates :: "'a list \<Rightarrow> 'a list" where
  "drop_duplicates xs = rev (remdups (rev xs))"

text \<open>The dictionary \<open>region_translation\<close>, in the order it is written.\<close>

definition region_translation :: "(int \<times> int) list" where
  "region_translation =
     [(1, 22), (2, 24), (3, 23), (4, 25), (5, 3), (6, 4), (7, 8), (8, 19), (9, 20), (10, 21),
      (11, 9), (13, 10), (14, 11), (15, 12), (16, 13), (17, 14), (18, 15), (19, 16), (21, 17),
      (22, 18), (23, 6), (24, 1), (25, 2), (26, 6), (27, 5)]"

text \<open>
  \<open>Series.replace(d)\<close> on one value: the value of the key if it is a key, the value itself
  otherwise. All cells are replaced at once, from their values before the call.
\<close>

definition replace :: "(int \<times> int) list \<Rightarrow> int \<Rightarrow> int" where
  "replace d k = (case map_of d k of None \<Rightarrow> k | Some v \<Rightarrow> v)"

text \<open>
  \<open>combined_data\<close> at line 67: the frames concatenated (\<open>pd.concat\<close> raises
  \<open>ValueError\<close> on an empty list), without duplicates, without the rows of the regions
  12 and 20.
\<close>

definition combined_data :: "data_row list list \<Rightarrow> error + data_row list" where
  "combined_data data_frames =
     (if data_frames = [] then Inl ValueError
      else Inr (filter (\<lambda>r. region_num r \<notin> set [12, 20])
                  (drop_duplicates (concat data_frames))))"

definition data_frame :: "raw_file list \<Rightarrow> error + data_row list" where
  "data_frame csv_files =
     (case traverse process_csv csv_files of
        Inl e \<Rightarrow> Inl e
      | Inr data_frames \<Rightarrow>
         (case combined_data data_frames of
            Inl e \<Rightarrow> Inl e
          | Inr combined \<Rightarrow>
              Inr (map (\<lambda>r. r\<lparr>region_num := replace region_translation (region_num r)\<rparr>)
                     combined)))"

section \<open>The query engine (\<open>filter_data\<close>)\<close>

text \<open>
  The region names and the sort options are Cyrillic texts. A Python \<open>str\<close> of the user
  interface is the list of its Unicode code points. The names of \<open>regions_true_id\<close>,
  transliterated:
  \<^item> 1: Vinnytska
  \<^item> 2: Volynska
  \<^item> 3: Dnipropetrovska
  \<^item> 4: Donetska
  \<^item> 5: Zhytomyrska
  \<^item> 6: Zakarpatska
  \<^item> 7: Zaporizka
  \<^item> 8: Ivano-Frankivska
  \<^item> 9: Kyivska
  \<^item> 10: Kirovohradska
  \<^item> 11: Luhanska
  \<^item> 12: Lvivska
  \<^item> 13: Mykolaivska
  \<^item> 14: Odeska
  \<^item> 15: Poltavska
  \<^item> 16: Rivnenska
  \<^item> 17: Sumska
  \<^item> 18: Ternopilska
  \<^item> 19: Kharkivska
  \<^item> 20: Khersonska
  \<^item> 21: Khmelnytska
  \<^item> 22: Cherkaska
  \<^item> 23: Chernivetska
  \<^item> 24: Chernihivska
  \<^item> 25: Respublika Krym
\<close>

definition regions_true_id :: "(int \<times> nat list) list" where
  "regions_true_id =
     [
      (1, [1042, 1110, 1085, 1085, 1080, 1094, 1100, 1082, 1072]),
      (2, [1042, 1086, 1083, 1080, 1085, 1089, 1100, 1082, 1072]),
      (3, [1044, 1085, 1110, 1087, 1088, 1086, 1087, 1077, 1090, 1088, 1086, 1074, 1089, 1100, 1082, 1072]),
      (4, [1044, 1086, 1085, 1077, 1094, 1100, 1082, 1072]),
      (5, [1046, 1080, 1090, 1086, 1084, 1080, 1088, 1089, 1100, 1082, 1072]),
      (6, [1047, 1072, 1082, 1072, 1088, 1087, 1072, 1090, 1089, 1100, 1082, 1072]),
      (7, [1047, 1072, 1087, 1086, 1088, 1110, 1079, 1100, 1082, 1072]),
      (8, [1030, 1074, 1072, 1085, 1086, 45, 1060, 1088, 1072, 1085, 1082, 1110, 1074, 1089, 1100, 1082, 1072]),
      (9, [1050, 1080, 1111, 1074, 1089, 1100, 1082, 1072]),
      (10, [1050, 1110, 1088, 1086, 1074, 1086, 1075, 1088, 1072, 1076, 1089, 1100, 1082, 1072]),
      (11, [1051, 1091, 1075, 1072, 1085, 1089, 1100, 1082, 1072]),
      (12, [1051, 1100, 1074, 1110, 1074, 1089, 1100, 1082, 1072]),
      (13, [1052, 1080, 1082, 1086, 1083, 1072, 1111, 1074, 1089, 1100, 1082, 1072]),
      (14, [1054, 1076, 1077, 1089, 1100, 1082, 1072]),
      (15, [1055, 1086, 1083, 1090, 1072, 1074, 1089, 1100, 1082, 1072]),
      (16, [1056, 1110, 1074, 1085, 1077, 1085, 1089, 1100, 1082, 1072]),
      (17, [1057, 1091, 1084, 1089, 1100, 1082, 1072]),
      (18, [1058, 1077, 1088, 1085, 1086, 1087, 1110, 1083, 1100, 1089, 1100, 1082, 1072]),
      (19, [1061, 1072, 1088, 1082, 1110, 1074, 1089, 1100, 1082, 1072]),
      (20, [1061, 1077, 1088, 1089, 1086, 1085, 1089, 1100, 1082, 1072]),
      (21, [1061, 1084, 1077, 1083, 1100, 1085, 1080, 1094, 1100, 1082, 1072]),
      (22, [1063, 1077, 1088, 1082, 1072, 1089, 1100, 1082, 1072]),
      (23, [1063, 1077, 1088, 1085, 1110, 1074, 1077, 1094, 1100, 1082, 1072]),
      (24, [1063, 1077, 1088, 1085, 1110, 1075, 1110, 1074, 1089, 1100, 1082, 1072]),
      (25, [1056, 1077, 1089, 1087, 1091, 1073, 1083, 1110, 1082, 1072, 32, 1050, 1088, 1080, 1084])]"

text \<open>
  \<open>{v: k for k, v in self.regions_true_id.items()}\<close>: a later item overrides an earlier
  one with the same name, and \<open>.get\<close> gives \<open>None\<close> for a name that is not a key.
\<close>

definition region_names_to_id :: "nat list \<Rightarrow> int option" where
  "region_names_to_id = map_of (map (\<lambda>(k, v). (v, k)) (rev regions_true_id))"

text \<open>The two sort options that \<open>filter_data\<close> tests for: ascending, descending.\<close>

definition sort_ascending :: "nat list" where
  "sort_ascending = [1047, 1072, 32, 1079, 1088, 1086, 1089, 1090, 1072, 1085, 1085, 1103, 1084]"

definition sort_descending :: "nat list" where
  "sort_descending = [1047, 1072, 32, 1089, 1087, 1072, 1076, 1072, 1085, 1085, 1103, 1084]"

text \<open>\<open>Series.between(left, right)\<close>, both ends included.\<close>

definition between :: "'a::ord \<Rightarrow> 'a \<Rightarrow> 'a \<Rightarrow> bool" where
  "between x left right = (left \<le> x \<and> x \<le> right)"

text \<open>
  The boolean mask of \<open>filter_data\<close> on one row. A comparison of \<open>region_num\<close> with
  \<open>None\<close> is false in every row.
\<close>

definition row_mask :: "real \<times> real \<Rightarrow> int \<times> int \<Rightarrow> int option \<Rightarrow> query_row \<Rightarrow> bool" where
  "row_mask years_interval weeks_interval region_num_selected r =
     (between (Year r) (fst years_interval) (snd years_interval) \<and>
      between (Week r) (fst weeks_interval) (snd weeks_interval) \<and>
      Some (region_num r) = region_num_selected)"

text \<open>
  The column a name selects, as a sort key; a name that is no column raises \<open>KeyError\<close>
  in \<open>sort_values\<close>.
\<close>

definition column :: "string \<Rightarrow> (query_row \<Rightarrow> real option) option" where
  "column name =
     (if name = ''region_num'' then Some (\<lambda>r. Some (of_int (region_num r)))
      else if name = ''Year'' then Some (\<lambda>r. Some (Year r))
      else if name = ''Week'' then Some (\<lambda>r. Some (of_int (Week r)))
      else if name = ''SMN'' then Some SMN
      else if name = ''SMT'' then Some SMT
      else if name = ''VCI'' then Some VCI
      else if name = ''TCI'' then Some TCI
      else if name = ''VHI'' then Some VHI
      else None)"

text \<open>
  \<open>DataFrame.sort_values(by=parameter, ascending=...)\<close> is pandas' code, called with its
  default \<open>kind='quicksort'\<close>, for which pandas promises no order among rows with equal
  keys. It is a parameter \<open>sort_values\<close> of the model, taking the key, the direction and
  the rows. What is used of it is that it reorders the rows it is given.
\<close>

type_synonym sorter = "(query_row \<Rightarrow> real option) \<Rightarrow> bool \<Rightarrow> query_row list \<Rightarrow> query_row list"

definition reorders :: "sorter \<Rightarrow> bool" where
  "reorders sort_values =
     (\<forall>by ascending rows. mset (sort_values by ascending rows) = mset rows)"

text \<open>
  One such function, \<open>sort_values\<close> with \<open>kind='stable'\<close>: the rows with a NaN key go
  last, the others are sorted by a stable sort (on the reversed frame, reversed again,
  when descending).
\<close>

definition sort_values_stable :: sorter where
  "sort_values_stable by ascending rows =
     (let non_nan = filter (\<lambda>r. by r \<noteq> None) rows;
          nan = filter (\<lambda>r. by r = None) rows
      in (if ascending then sort_key (\<lambda>r. the (by r)) non_nan
          else rev (sort_key (\<lambda>r. the (by r)) (rev non_nan))) @ nan)"

definition filter_data ::
  "sorter \<Rightarrow> query_row list \<Rightarrow> real \<times> real \<Rightarrow> int \<times> int \<Rightarrow> nat list \<Rightarrow> nat list \<Rightarrow> string
     \<Rightarrow> error + query_row list" where
  "filter_data sort_values df years_interval weeks_interval region sort_option parameter =
     (let region_num_selected = region_names_to_id region;
          filtered_data = filter (row_mask years_interval weeks_interval region_num_selected) df
      in if sort_option = sort_ascending then
           (case column parameter of
              None \<Rightarrow> Inl KeyError
            | Some by \<Rightarrow> Inr (sort_values by True filtered_data))
         else if sort_option = sort_descending then
           (case column parameter of
              None \<Rightarrow> Inl KeyError
            | Some by \<Rightarrow> Inr (sort_values by False filtered_data))
         else Inr filtered_data)"

section \<open>Sample inputs\<close>

text \<open>
  Three rows as \<open>pd.read_csv\<close> gives them for a file of the source format: the first row
  with the text before its year, a row without data (\<open>VHI = -1\<close>) and the footer.
\<close>

definition sample_first :: csv_row where
  "sample_first =
     \<lparr>Year = Some ''<tt><pre>1982'', Week = Fin 1, SMN = Some 0.053, SMT = Some 260.31,
      VCI = Some 45.01, TCI = Some 39.46, VHI = Some 42.23, empty_col = None\<rparr>"

definition sample_no_data :: csv_row where
  "sample_no_data =
     \<lparr>Year = Some ''1982'', Week = Fin 2, SMN = Some (- 1), SMT = Some (- 1),
      VCI = Some (- 1), TCI = Some (- 1), VHI = Some (- 1), empty_col = None\<rparr>"

definition sample_footer :: csv_row where
  "sample_footer =
     \<lparr>Year = Some ''</pre></tt>'', Week = NaN, SMN = None, SMT = None,
      VCI = None, TCI = None, VHI = None, empty_col = None\<rparr>"

text \<open>A file with these rows whose name carries \<open>region\<close> as its third segment.\<close>

definition sample_file :: "string \<Rightarrow> raw_file" where
  "sample_file region =
     \<lparr>file_path = ''data_csv/vhi_id_'' @ region @ ''_2024-05-01_10-30.csv'',
      read_csv = Inr [sample_first, sample_no_data, sample_footer]\<rparr>"

text \<open>The row of the dataset that \<open>sample_first\<close> becomes, in region \<open>region\<close>.\<close>

definition sample_row :: "int \<Rightarrow> data_row" where
  "sample_row region =
     \<lparr>Year = Some ''1982'', Week = 1, SMN = Some 0.053, SMT = Some 260.31,
      VCI = Some 45.01, TCI = Some 39.46, VHI = Some 42.23, region_num = region\<rparr>"

text \<open>The same rows in a file whose name has no third segment.\<close>

definition sample_unnamed :: raw_file where
  "sample_unnamed =
     \<lparr>file_path = ''data_csv/notes.csv'',
      read_csv = Inr [sample_first, sample_no_data, sample_footer]\<rparr>"

text \<open>The sample file of region 5 with another text in the year cell of its first row.\<close>

definition sample_file_with_year :: "string \<Rightarrow> raw_file" where
  "sample_file_with_year y =
     \<lparr>file_path = ''data_csv/vhi_id_5_2024-05-01_10-30.csv'',
      read_csv = Inr [sample_first\<lparr>Year := Some y\<rparr>, sample_no_data, sample_footer]\<rparr>"

text \<open>The sample file of region 5 with another week in its first row.\<close>

definition sample_file_with_week :: "float64 \<Rightarrow> raw_file" where
  "sample_file_with_week w =
     \<lparr>file_path = ''data_csv/vhi_id_5_2024-05-01_10-30.csv'',
      read_csv = Inr [sample_first\<lparr>Week := w\<rparr>, sample_no_data, sample_footer]\<rparr>"

text \<open>A row of the dataset as \<open>filter_data\<close> receives it, the year a number.\<close>

definition sample_query_row :: query_row where
  "sample_query_row =
     \<lparr>Year = 1982, Week = 1, SMN = Some 0.053, SMT = Some 260.31,
      VCI = Some 45.01, TCI = Some 39.46, VHI = Some 42.23, region_num = 9\<rparr>"

section \<open>Facts about the helpers\<close>

lemma split_from_not_Nil: "split_from sep piece s \<noteq> []"
  by (induction s arbitrary: piece) auto

lemma str_split_not_Nil: "str_split sep s \<noteq> []"
  by (simp add: str_split_def split_from_not_Nil)

lemma basename_join:
  assumes "CHR ''/'' \<notin> set name"
  shows "basename (folder @ ''/'' @ name) = name"
proof -
  have "takeWhile (\<lambda>c. c \<noteq> CHR ''/'') (rev name @ CHR ''/'' # rev folder) = rev name"
    using assms by (auto simp: takeWhile_tail)
  then show ?thesis
    by (simp add: basename_def)
qed

lemma py_int_empty: "py_int [] = Inl ValueError"
  by (simp add: py_int_def str_split_def strip_def)

lemma file_name_third_segment:
  "2 < length (str_split (CHR ''_'') (file_name code date)) \<and>
   str_split (CHR ''_'') (file_name code date) ! 2 = []"
proof -
  obtain p ps where "split_from (CHR ''_'') [] (code @ ''__'' @ date @ ''.csv'') = p # ps"
    using split_from_not_Nil by (meson list.exhaust)
  then show ?thesis
    by (simp add: file_name_def str_split_def)
qed

lemma traverse_Inr_iff: "traverse f xs = Inr ys \<longleftrightarrow> map f xs = map Inr ys"
proof (induction xs arbitrary: ys)
  case Nil
  then show ?case by auto
next
  case (Cons x xs)
  show ?case
  proof (cases ys)
    case Nil
    then show ?thesis by (simp split: sum.splits)
  next
    case (Cons y ys')
    then show ?thesis
      by (auto simp: Cons.IH[symmetric] split: sum.splits)
  qed
qed

lemma traverse_isl_iff: "isl (traverse f xs) \<longleftrightarrow> (\<exists>x\<in>set xs. isl (f x))"
  by (induction xs) (auto split: sum.splits)

lemma traverse_rel: "traverse f xs = Inr ys \<longleftrightarrow> list_all2 (\<lambda>x y. f x = Inr y) xs ys"
proof -
  have "map f xs = map Inr ys \<longleftrightarrow> list_all2 (=) (map f xs) (map Inr ys)"
    by (simp add: list.rel_eq)
  then show ?thesis
    by (simp add: traverse_Inr_iff list_all2_map1 list_all2_map2)
qed

lemma traverse_append:
  "traverse f (xs @ ys) =
     (case traverse f xs of
        Inl e \<Rightarrow> Inl e
      | Inr us \<Rightarrow> (case traverse f ys of Inl e \<Rightarrow> Inl e | Inr vs \<Rightarrow> Inr (us @ vs)))"
  by (induction xs) (auto split: sum.splits)


lemma set_drop_duplicates: "set (drop_duplicates xs) = set xs"
  by (simp add: drop_duplicates_def)

lemma filter_drop_duplicates: "filter P (drop_duplicates xs) = drop_duplicates (filter P xs)"
  by (simp add: drop_duplicates_def rev_filter remdups_filter)

lemma to_row_region: "to_row k r = Inr d \<Longrightarrow> region_num d = k"
  by (auto simp: to_row_def split: sum.splits)

lemma process_csv_region:
  assumes "process_csv file = Inr rows"
  shows "\<exists>k. region_num_of (file_path file) = Inr k \<and> (\<forall>d\<in>set rows. region_num d = k)"
proof -
  from assms obtain k data where k: "region_num_of (file_path file) = Inr k"
    and rows: "traverse (to_row k) data = Inr rows"
    by (auto simp: process_csv_def split: sum.splits)
  have "region_num d = k" if "d \<in> set rows" for d
  proof -
    from that rows have "Inr d \<in> set (map (to_row k) data)"
      by (simp add: traverse_Inr_iff)
    then show ?thesis
      by (auto dest: to_row_region[OF sym])
  qed
  with k show ?thesis by blast
qed

text \<open>The sample file parses to one row: the footer and the row without data are dropped.\<close>

lemma process_csv_sample_5: "process_csv (sample_file ''5'') = Inr [sample_row 5]"
  by (simp add: sample_file_def sample_row_def process_csv_def region_num_of_def basename_def
      py_int_def str_split_def strip_def is_space_def is_digit_def digits_val_def sample_first_def
      sample_no_data_def sample_footer_def strip_first_year_def to_row_def astype_int_def float_to_int64_def)

lemma region_num_of_sample_5: "region_num_of (file_path (sample_file ''5'')) = Inr 5"
  by (simp add: sample_file_def region_num_of_def basename_def str_split_def
      py_int_def strip_def is_space_def is_digit_def digits_val_def)

text \<open>Whatever region the name of the sample file carries, its rows parse the same way.\<close>

lemma process_csv_sample:
  assumes "region_num_of (file_path (sample_file t)) = Inr k"
  shows "process_csv (sample_file t) = Inr [sample_row k]"
  using assms
  by (simp add: process_csv_def sample_file_def sample_row_def sample_first_def
      sample_no_data_def sample_footer_def strip_first_year_def to_row_def astype_int_def float_to_int64_def)

lemma region_num_of_sample_15: "region_num_of (file_path (sample_file ''15'')) = Inr 15"
  by (simp add: sample_file_def region_num_of_def basename_def str_split_def
      py_int_def strip_def is_space_def is_digit_def digits_val_def)

lemma replace_5: "replace region_translation 5 = 3"
  by (simp add: replace_def region_translation_def)

lemma replace_15: "replace region_translation 15 = 12"
  by (simp add: replace_def region_translation_def)

text \<open>What \<open>data_frame\<close> returns when it returns.\<close>

lemma data_frame_Inr_iff:
  "data_frame files = Inr ds \<longleftrightarrow>
     files \<noteq> [] \<and>
     (\<exists>frames. traverse process_csv files = Inr frames \<and>
        ds = map (\<lambda>r. r\<lparr>region_num := replace region_translation (region_num r)\<rparr>)
               (filter (\<lambda>r. region_num r \<notin> set [12, 20]) (drop_duplicates (concat frames))))"
proof -
  have "frames = [] \<longleftrightarrow> files = []" if "traverse process_csv files = Inr frames" for frames
    using that by (auto simp: traverse_Inr_iff)
  then show ?thesis
    by (auto simp: data_frame_def combined_data_def split: sum.splits)
qed

lemma data_frame_sample:
  assumes "region_num_of (file_path (sample_file t)) = Inr k" and "k \<noteq> 12" and "k \<noteq> 20"
  shows "data_frame [sample_file t] = Inr [sample_row (replace region_translation k)]"
  using assms
  by (simp add: data_frame_def combined_data_def process_csv_sample drop_duplicates_def
      sample_row_def)

lemma process_csv_unnamed: "process_csv sample_unnamed = Inl IndexError"
  by (simp add: process_csv_def sample_unnamed_def region_num_of_def basename_def str_split_def)



subsection \<open>The translation table\<close>

lemma replace_non_key:
  "k < 1 \<or> 27 < k \<or> k = 12 \<or> k = 20 \<Longrightarrow> replace region_translation k = k"
  by (auto simp: replace_def region_translation_def)

lemma replace_key:
  assumes "1 \<le> k" "k \<le> 27" "k \<noteq> 12" "k \<noteq> 20"
  shows "(k, replace region_translation k) \<in> set region_translation"
proof -
  from assms have "k \<in> {1, 2, 3, 4, 5, 6, 7, 8, 9, 10, 11, 13, 14, 15, 16, 17, 18, 19, 21, 22, 23,
    24, 25, 26, 27}"
    by simp presburger
  then show ?thesis
    by (auto simp: replace_def region_translation_def)
qed

lemma translation_bounds:
  "(k, v) \<in> set region_translation \<Longrightarrow> 1 \<le> k \<and> k \<le> 27 \<and> 1 \<le> v \<and> v \<le> 25 \<and> k \<noteq> v"
  by (auto simp: region_translation_def)





subsection \<open>Rows and the files they come from\<close>



lemma region_num_of_sample_12: "region_num_of (file_path (sample_file ''12'')) = Inr 12"
  by (simp add: sample_file_def region_num_of_def basename_def str_split_def
      py_int_def strip_def is_space_def is_digit_def digits_val_def)

lemma replace_fixed_iff:
  assumes "1 \<le> k" and "k \<le> 25"
  shows "replace region_translation k = k \<longleftrightarrow> k = 12 \<or> k = 20"
proof
  assume fixed: "replace region_translation k = k"
  show "k = 12 \<or> k = 20"
  proof (rule ccontr)
    assume "\<not> (k = 12 \<or> k = 20)"
    with assms have "(k, replace region_translation k) \<in> set region_translation"
      by (intro replace_key) auto
    from translation_bounds[OF this] fixed show False
      by simp
  qed
next
  assume "k = 12 \<or> k = 20"
  then show "replace region_translation k = k"
    by (simp add: replace_non_key)
qed

text \<open>A file of region 12 or 20 that parses adds nothing to the dataset of the others.\<close>

lemma data_frame_skips_excluded_file:
  assumes f: "region_num_of (file_path f) = Inr j" "j = 12 \<or> j = 20" "process_csv f = Inr rows"
    and ds: "data_frame (fs1 @ fs2) = Inr ds"
  shows "data_frame (fs1 @ f # fs2) = Inr ds"
proof -
  let ?keep = "\<lambda>r::data_row. region_num r \<notin> set [12, 20]"
  let ?remap = "\<lambda>r::data_row. r\<lparr>region_num := replace region_translation (region_num r)\<rparr>"
  from ds obtain frames where frames: "traverse process_csv (fs1 @ fs2) = Inr frames"
    and ds': "ds = map ?remap (filter ?keep (drop_duplicates (concat frames)))"
    by (auto simp: data_frame_Inr_iff)
  from frames obtain a b where a: "traverse process_csv fs1 = Inr a"
    and b: "traverse process_csv fs2 = Inr b" and ab: "frames = a @ b"
    by (auto simp: traverse_append split: sum.splits)
  from process_csv_region[OF f(3)] f(1,2) have "filter ?keep rows = []"
    by (auto simp: filter_empty_conv)
  then have "filter ?keep (concat (a @ rows # b)) = filter ?keep (concat (a @ b))"
    by simp
  then have "filter ?keep (drop_duplicates (concat (a @ rows # b)))
      = filter ?keep (drop_duplicates (concat frames))"
    by (simp only: filter_drop_duplicates ab)
  moreover from a b f(3) have "traverse process_csv (fs1 @ f # fs2) = Inr (a @ rows # b)"
    by (simp add: traverse_append)
  ultimately show ?thesis
    by (simp add: data_frame_Inr_iff ds')
qed

subsection \<open>Rows of the parser\<close>

lemma to_row_cells:
  assumes "to_row k r = Inr d"
  shows "region_num d = k \<and> astype_int (Week r) = Inr (Week d) \<and> Year d = Year r \<and>
         SMN d = SMN r \<and> SMT d = SMT r \<and> VCI d = VCI r \<and> TCI d = TCI r \<and> VHI d = VHI r"
  using assms by (auto simp: to_row_def split: sum.splits)

text \<open>The rows before the footer, as \<open>strip_first_year\<close> leaves them.\<close>

lemma strip_first_year_butlast:
  fixes data :: "csv_row list"
  assumes "2 \<le> length data" and "Year (data ! 0) = Some y"
  shows "\<exists>data1. strip_first_year data = Inr data1 \<and>
           butlast data1 = (data ! 0)\<lparr>Year := Some (drop 9 y)\<rparr> # tl (butlast data)"
proof -
  from assms(1) obtain a b rest where data: "data = a # b # rest"
    by (cases data; cases "tl data") auto
  with assms(2) show ?thesis
    by (simp add: strip_first_year_def)
qed

lemma traverse_map_Inr:
  "(\<And>x. x \<in> set xs \<Longrightarrow> f x = Inr (g x)) \<Longrightarrow> traverse f xs = Inr (map g xs)"
  by (induction xs) auto

lemma filter_take_nth:
  assumes "n \<le> length xs"
  shows "filter P (take n xs) = map ((!) xs) (filter (\<lambda>i. P (xs ! i)) [0..<n])"
proof -
  have "take n xs = map ((!) xs) [0..<n]"
    using assms by (auto intro: nth_equalityI)
  then show ?thesis
    by (simp add: filter_map o_def)
qed

subsection \<open>Sorting\<close>

lemma reorders_Nil: "reorders sort_values \<Longrightarrow> sort_values key ascending [] = []"
  unfolding reorders_def by (metis mset_zero_iff)

lemma reorders_stable: "reorders sort_values_stable"
proof -
  have "mset (filter P xs) + mset (filter (\<lambda>x. \<not> P x) xs) = mset xs"
    for P and xs :: "query_row list"
    by (induction xs) auto
  from this[of "\<lambda>r. _ r \<noteq> None"] show ?thesis
    by (auto simp: reorders_def sort_values_stable_def Let_def)
qed

lemma column_parameter:
  "parameter \<in> {''VCI'', ''TCI'', ''VHI''} \<Longrightarrow> \<exists>key. column parameter = Some key"
  by (auto simp: column_def)

section \<open>The excluded regions\<close>

text \<open>
  Claim C1 says that no record of the built dataset has the canonical region id 12 or 20,
  the id after the remap. The code fails it: \<open>isin([12, 20])\<close> is applied at line 67 to
  the ids of the file names, before \<open>replace\<close> at line 74, and the translation sends 15 to
  12 and 9 to 20. A file of region 15 gives a record of region 12.
\<close>

theorem data_frame_keeps_canonical_12:
  "data_frame [sample_file ''15''] = Inr [sample_row 12] \<and> region_num (sample_row 12) = 12"
  using data_frame_sample[OF region_num_of_sample_15]
  by (simp add: replace_15 sample_row_def)

text \<open>
  Claim C1, amended: every record of the built dataset is the remap of a parsed record of
  a file whose own region id, the one in its name, is neither 12 nor 20. The exclusion is
  on the ids before the remap.
\<close>

theorem data_frame_excludes_local_12_20:
  assumes "data_frame files = Inr ds" and "d \<in> set ds"
  shows "\<exists>f\<in>set files. \<exists>k rows.
           region_num_of (file_path f) = Inr k \<and> k \<noteq> 12 \<and> k \<noteq> 20 \<and>
           process_csv f = Inr rows \<and>
           d \<in> (\<lambda>r. r\<lparr>region_num := replace region_translation k\<rparr>) ` set rows"
proof -
  from assms(1) obtain frames where frames: "traverse process_csv files = Inr frames"
    and ds: "ds = map (\<lambda>r. r\<lparr>region_num := replace region_translation (region_num r)\<rparr>)
               (filter (\<lambda>r. region_num r \<notin> set [12, 20]) (drop_duplicates (concat frames)))"
    by (auto simp: data_frame_Inr_iff)
  from assms(2) ds obtain r rows where r: "r \<in> set rows" "rows \<in> set frames"
    and keep: "region_num r \<noteq> 12" "region_num r \<noteq> 20"
    and d: "d = r\<lparr>region_num := replace region_translation (region_num r)\<rparr>"
    by (auto simp: set_drop_duplicates)
  from r(2) frames have "Inr rows \<in> set (map process_csv files)"
    by (simp add: traverse_Inr_iff)
  then obtain f where f: "f \<in> set files" "process_csv f = Inr rows"
    by auto
  from process_csv_region[OF f(2)] r(1) have "region_num_of (file_path f) = Inr (region_num r)"
    by auto
  with f keep d r(1) show ?thesis
    by blast
qed

theorem data_frame_excludes_local_12_20_witness:
  "data_frame [sample_file ''15''] = Inr [sample_row 12] \<and>
   (\<exists>f\<in>set [sample_file ''15'']. \<exists>k rows.
      region_num_of (file_path f) = Inr k \<and> k \<noteq> 12 \<and> k \<noteq> 20 \<and>
      process_csv f = Inr rows \<and>
      sample_row 12 \<in> (\<lambda>r. r\<lparr>region_num := replace region_translation k\<rparr>) ` set rows)"
proof -
  have e: "data_frame [sample_file ''15''] = Inr [sample_row 12]"
    using data_frame_sample[OF region_num_of_sample_15] by (simp add: replace_15)
  show ?thesis
    using e data_frame_excludes_local_12_20[OF e, of "sample_row 12"] by simp
qed

section \<open>No files\<close>

text \<open>
  Claim C3 says that with no raw file the build returns an empty dataset and raises
  nothing. The code fails it: \<open>data_frames\<close> is the empty list and \<open>pd.concat\<close> raises
  \<open>ValueError\<close> on it.
\<close>

theorem data_frame_no_files_raises: "data_frame [] = Inl ValueError"
  by (simp add: data_frame_def combined_data_def)

text \<open>
  Claim C3, amended: with no raw file the build raises \<open>ValueError\<close>, and whenever it
  returns a dataset there was a file.
\<close>

theorem data_frame_needs_a_file:
  "(files = [] \<longrightarrow> data_frame files = Inl ValueError) \<and>
   (data_frame files = Inr ds \<longrightarrow> files \<noteq> [])"
  by (auto simp: data_frame_def combined_data_def)

theorem data_frame_needs_a_file_witness:
  "data_frame ([] :: raw_file list) = Inl ValueError \<and>
   data_frame [sample_file ''5''] = Inr [sample_row 3] \<and> [sample_file ''5''] \<noteq> []"
proof -
  have e: "data_frame [sample_file ''5''] = Inr [sample_row 3]"
    using data_frame_sample[OF region_num_of_sample_5] by (simp add: replace_5)
  from data_frame_needs_a_file[of "[]"]
    data_frame_needs_a_file[of "[sample_file ''5'']" "[sample_row 3]"] e
  show ?thesis
    by simp
qed

section \<open>A malformed file\<close>

text \<open>
  Claim C4 says that a malformed file is left out and the build still gives the records of
  the other files. The code fails it: \<open>data_frame\<close> has no \<open>try\<close>, so the exception of
  \<open>process_csv\<close> leaves the list comprehension at line 64 and the build. Here the sample
  file parses, a second file has no region in its name, and the build raises.
\<close>

theorem data_frame_aborted_by_one_file:
  "process_csv (sample_file ''5'') = Inr [sample_row 5] \<and>
   process_csv sample_unnamed = Inl IndexError \<and>
   data_frame [sample_file ''5'', sample_unnamed] = Inl IndexError"
  by (simp add: data_frame_def process_csv_sample_5 process_csv_unnamed)

text \<open>
  Claim C4, amended: a malformed file aborts the build. When the files listed before it
  parse, the build raises the exception of that file, whatever the files after it hold.
\<close>

theorem data_frame_aborts_on_malformed_file:
  assumes "\<forall>f\<in>set before. \<exists>rows. process_csv f = Inr rows" and "process_csv bad = Inl e"
  shows "data_frame (before @ bad # after) = Inl e"
proof -
  from assms(1) have "\<not> isl (traverse process_csv before)"
    by (auto simp: traverse_isl_iff)
  then obtain frames where "traverse process_csv before = Inr frames"
    by (cases "traverse process_csv before") auto
  with assms(2) have "traverse process_csv (before @ bad # after) = Inl e"
    by (simp add: traverse_append)
  then show ?thesis
    by (simp add: data_frame_def)
qed

theorem data_frame_aborts_on_malformed_file_witness:
  "data_frame ([sample_file ''5''] @ sample_unnamed # [sample_file ''5'']) = Inl IndexError"
  using data_frame_aborts_on_malformed_file[of "[sample_file ''5'']" sample_unnamed IndexError
      "[sample_file ''5'']"]
  by (simp add: process_csv_sample_5 process_csv_unnamed)

section \<open>Duplicates\<close>




section \<open>The remap on canonical ids\<close>

text \<open>
  Claim C8 says that the remap returns every canonical id (1 to 25) unchanged, unless it
  maps into 12 or 20. The code fails it: the table sends 1 to 22, which is neither 1 nor
  12 nor 20, and applying it again gives 18.
\<close>

theorem remap_changes_canonical_id:
  "replace region_translation 1 = 22 \<and> replace region_translation 22 = 18"
  by (simp add: replace_def region_translation_def)

text \<open>
  Claim C8, amended: an id without an entry in the table is returned unchanged; among the
  ids 1 to 25 these are exactly 12 and 20, and the remap changes every other one. A file
  whose own id is 12 or 20 contributes no record: adding it to the files leaves the
  built dataset as it is.
\<close>

theorem remap_fixes_only_12_and_20:
  "(map_of region_translation k = None \<longrightarrow> replace region_translation k = k) \<and>
   (1 \<le> k \<and> k \<le> 25 \<longrightarrow> (replace region_translation k = k \<longleftrightarrow> k = 12 \<or> k = 20)) \<and>
   (region_num_of (file_path f) = Inr j \<and> (j = 12 \<or> j = 20) \<and> process_csv f = Inr rows \<and>
      data_frame (fs1 @ fs2) = Inr ds \<longrightarrow> data_frame (fs1 @ f # fs2) = Inr ds)"
  using replace_fixed_iff[of k] data_frame_skips_excluded_file[of f j rows fs1 fs2 ds]
  by (simp add: replace_def)

theorem remap_fixes_only_12_and_20_witness:
  "replace region_translation 12 = 12 \<and> replace region_translation 1 \<noteq> 1 \<and>
   data_frame ([sample_file ''5''] @ sample_file ''12'' # []) = Inr [sample_row 3]"
proof -
  have e: "data_frame ([sample_file ''5''] @ []) = Inr [sample_row 3]"
    using data_frame_sample[OF region_num_of_sample_5] by (simp add: replace_5)
  have n: "map_of region_translation 12 = None"
    by (simp add: region_translation_def)
  have p: "process_csv (sample_file ''12'') = Inr [sample_row 12]"
    by (rule process_csv_sample[OF region_num_of_sample_12])
  from remap_fixes_only_12_and_20[of 12 "sample_file ''12''" 12 "[sample_row 12]"
      "[sample_file ''5'']" "[]" "[sample_row 3]"]
    remap_fixes_only_12_and_20[of 1]
    e n p region_num_of_sample_12
  show ?thesis
    by simp
qed

section \<open>The rows the parser drops\<close>

text \<open>
  Claim C6 says that for every raw file with a valid header and at least two data rows the
  output of the parser holds exactly the input rows but the last one and those whose
  \<open>VHI\<close> is \<open>-1\<close>. The code fails it on files for which the parser has no output: the
  week of a row it keeps is cast by \<open>astype(int)\<close>, which raises \<open>ValueError\<close> when that
  week is NaN or an infinity. Here the first of three rows has such a week.
\<close>

theorem process_csv_raises_on_week:
  "process_csv (sample_file_with_week NaN) = Inl ValueError \<and>
   process_csv (sample_file_with_week PosInf) = Inl ValueError"
  by (simp add: sample_file_with_week_def process_csv_def region_num_of_def
      basename_def py_int_def str_split_def strip_def is_space_def is_digit_def digits_val_def
      sample_first_def sample_no_data_def sample_footer_def strip_first_year_def to_row_def
      astype_int_def)

text \<open>
  Claim C6, amended: for a raw file with at least two data rows whose name yields a region
  id, whose first year cell is a text and whose rows to keep (those before the last with
  \<open>VHI\<close> other than \<open>-1\<close>) have a finite week, the parser returns exactly these rows,
  in their order and no other: row \<open>i\<close> of the input with its measures as they are, its
  week cast to int64, the region id of the file, and its year, without the first 9
  characters in the first row.
\<close>

theorem process_csv_keeps_exactly:
  assumes "region_num_of (file_path file) = Inr region"
    and "read_csv file = Inr data"
    and "2 \<le> length data"
    and "Year (data ! 0) = Some y"
    and "\<forall>r\<in>set (butlast data). VHI r \<noteq> Some (- 1) \<longrightarrow> is_Fin (Week r)"
  shows "process_csv file =
           Inr (map (\<lambda>i. \<lparr>Year = (if i = 0 then Some (drop 9 y) else Year (data ! i)),
                           Week = float_to_int64 (fin_value (Week (data ! i))),
                           SMN = SMN (data ! i), SMT = SMT (data ! i), VCI = VCI (data ! i),
                           TCI = TCI (data ! i), VHI = VHI (data ! i), region_num = region\<rparr>)
                  (filter (\<lambda>i. VHI (data ! i) \<noteq> Some (- 1)) [0..<length data - 1]))"
proof -
  let ?data1 = "data[0 := (data ! 0)\<lparr>Year := Some (drop 9 y)\<rparr>]"
  let ?kept = "filter (\<lambda>i. VHI (data ! i) \<noteq> Some (- 1)) [0..<length data - 1]"
  let ?row = "\<lambda>i. \<lparr>Year = (if i = 0 then Some (drop 9 y) else Year (data ! i)),
                     Week = float_to_int64 (fin_value (Week (data ! i))),
                     SMN = SMN (data ! i), SMT = SMT (data ! i), VCI = VCI (data ! i),
                     TCI = TCI (data ! i), VHI = VHI (data ! i), region_num = region\<rparr>"
  from assms(3,4) have stripped: "strip_first_year data = Inr ?data1"
    by (auto simp: strip_first_year_def)
  from assms(3) have first: "?data1 ! 0 = (data ! 0)\<lparr>Year := Some (drop 9 y)\<rparr>"
    by (cases data) auto
  have others: "?data1 ! i = data ! i" if "i \<noteq> 0" for i
    using that by simp
  have "filter (\<lambda>r. VHI r \<noteq> Some (- 1)) (butlast ?data1)
      = map ((!) ?data1) (filter (\<lambda>i. VHI (?data1 ! i) \<noteq> Some (- 1)) [0..<length data - 1])"
    using filter_take_nth[of "length data - 1" ?data1 "\<lambda>r. VHI r \<noteq> Some (- 1)"]
    by (simp add: butlast_conv_take)
  also have "filter (\<lambda>i. VHI (?data1 ! i) \<noteq> Some (- 1)) [0..<length data - 1] = ?kept"
  proof (rule filter_cong)
    fix i
    show "(VHI (?data1 ! i) \<noteq> Some (- 1)) = (VHI (data ! i) \<noteq> Some (- 1))"
      using first others[of i] by (cases "i = 0") auto
  qed simp
  finally have rows: "filter (\<lambda>r. VHI r \<noteq> Some (- 1)) (butlast ?data1) = map ((!) ?data1) ?kept" .
  have "to_row region (?data1 ! i) = Inr (?row i)" if "i \<in> set ?kept" for i
  proof -
    from that have i: "i < length data - 1" and vhi: "VHI (data ! i) \<noteq> Some (- 1)"
      by auto
    from i have "data ! i \<in> set (butlast data)"
      by (metis in_set_conv_nth length_butlast nth_butlast)
    with assms(5) vhi have "is_Fin (Week (data ! i))"
      by blast
    then obtain x where "Week (data ! i) = Fin x"
      by (cases "Week (data ! i)") auto
    then show ?thesis
      using first others[of i] by (cases "i = 0") (auto simp: to_row_def astype_int_def)
  qed
  then have "traverse (to_row region) (map ((!) ?data1) ?kept) = Inr (map ?row ?kept)"
    using traverse_map_Inr[of ?kept "\<lambda>i. to_row region (?data1 ! i)" ?row]
    by (simp add: traverse_Inr_iff)
  with assms(1,2) stripped rows show ?thesis
    by (simp add: process_csv_def)
qed

theorem process_csv_keeps_exactly_witness:
  "process_csv (sample_file ''5'') =
     Inr [\<lparr>Year = Some ''1982'', Week = 1, SMN = Some 0.053, SMT = Some 260.31,
           VCI = Some 45.01, TCI = Some 39.46, VHI = Some 42.23, region_num = 5\<rparr>]"
proof -
  have a: "read_csv (sample_file ''5'') = Inr [sample_first, sample_no_data, sample_footer]"
    by (simp add: sample_file_def)
  have b: "2 \<le> length [sample_first, sample_no_data, sample_footer]"
    by simp
  have c: "Year ([sample_first, sample_no_data, sample_footer] ! 0) = Some ''<tt><pre>1982''"
    by (simp add: sample_first_def)
  have d: "\<forall>r\<in>set (butlast [sample_first, sample_no_data, sample_footer]).
             VHI r \<noteq> Some (- 1) \<longrightarrow> is_Fin (Week r)"
    by (simp add: sample_first_def sample_no_data_def)
  have k: "[0..<length [sample_first, sample_no_data, sample_footer] - 1] = [0, 1]"
    by (simp add: upt_rec)
  from process_csv_keeps_exactly[OF region_num_of_sample_5 a b c d] show ?thesis
    unfolding k by (simp add: sample_first_def sample_no_data_def float_to_int64_def)
qed

section \<open>The year of the first row\<close>

text \<open>
  Claim C5 says that the parser strips the leading non-digit characters of the first
  year cell, however many they are. The code fails it: \<open>[9:]\<close> removes the first 9
  characters, whatever they are. A year cell \<open><br>1982\<close> has 8 characters and becomes
  the empty text.
\<close>

theorem process_csv_short_prefix_not_stripped:
  "process_csv (sample_file_with_year ''<br>1982'') = Inr [(sample_row 5)\<lparr>Year := Some ''''\<rparr>]"
  by (simp add: sample_file_with_year_def sample_row_def process_csv_def region_num_of_def
      basename_def py_int_def str_split_def strip_def is_space_def is_digit_def digits_val_def
      sample_first_def sample_no_data_def sample_footer_def strip_first_year_def to_row_def
      astype_int_def float_to_int64_def)

text \<open>
  Claim C5, amended: the parser removes exactly the first 9 characters of the year cell
  of the first row and keeps the rest as text (it makes no integer of it). So the year of
  the first record is the numeric part when the text before it has 9 characters, as
  \<open><tt><pre>\<close> has.
\<close>

theorem process_csv_strips_nine_chars:
  assumes "read_csv file = Inr data"
    and "2 \<le> length data"
    and "Year (data ! 0) = Some y"
    and "VHI (data ! 0) \<noteq> Some (- 1)"
    and "process_csv file = Inr out"
  shows "out \<noteq> [] \<and> Year (out ! 0) = Some (drop 9 y) \<and>
         (\<forall>p digits. y = p @ digits \<and> length p = 9 \<longrightarrow> Year (out ! 0) = Some digits)"
proof -
  let ?P = "\<lambda>r::csv_row. VHI r \<noteq> Some (- 1)"
  from strip_first_year_butlast[OF assms(2,3)] obtain data1
    where data1: "strip_first_year data = Inr data1"
      and bl: "butlast data1 = (data ! 0)\<lparr>Year := Some (drop 9 y)\<rparr> # tl (butlast data)"
    by blast
  from assms(1,5) data1 obtain region
    where "traverse (to_row region) (filter ?P (butlast data1)) = Inr out"
    by (auto simp: process_csv_def split: sum.splits)
  with bl assms(4) obtain d rest
    where out: "out = d # rest"
      and d: "to_row region ((data ! 0)\<lparr>Year := Some (drop 9 y)\<rparr>) = Inr d"
    by (auto split: sum.splits)
  from to_row_cells[OF d] have "Year d = Some (drop 9 y)"
    by simp
  with out show ?thesis
    by auto
qed

theorem process_csv_strips_nine_chars_witness:
  "[sample_row 5] \<noteq> [] \<and> Year ([sample_row 5] ! 0) = Some (drop 9 ''<tt><pre>1982'') \<and>
   Year ([sample_row 5] ! 0) = Some ''1982''"
proof -
  have a: "read_csv (sample_file ''5'') = Inr [sample_first, sample_no_data, sample_footer]"
    by (simp add: sample_file_def)
  have b: "2 \<le> length [sample_first, sample_no_data, sample_footer]"
    by simp
  have c: "Year ([sample_first, sample_no_data, sample_footer] ! 0) = Some ''<tt><pre>1982''"
    by (simp add: sample_first_def)
  have d: "VHI ([sample_first, sample_no_data, sample_footer] ! 0) \<noteq> Some (- 1)"
    by (simp add: sample_first_def)
  from process_csv_strips_nine_chars[OF a b c d process_csv_sample_5]
  have "Year ([sample_row 5] ! 0) = Some ''1982''"
    by auto
  with process_csv_strips_nine_chars[OF a b c d process_csv_sample_5] show ?thesis
    by simp
qed

section \<open>The file name of the fetcher and the parser\<close>

text \<open>
  Claim C10 says that the parser extracts from the name \<open>load_data\<close> stores the province
  code the name was built from. The code does not: the name is
  \<open>vhi_id__<code>__<date>.csv\<close>, with two underscores before the code, so the third piece
  of \<open>filename.split('_')\<close> (index 2) is the empty string between them, for every code and
  every date, and \<open>int('')\<close> raises \<open>ValueError\<close>. The code sits at index 3. So
  \<open>process_csv\<close> raises on every file that \<open>load_data\<close> has stored, whatever the file
  holds.
\<close>

theorem load_data_name_not_parsed:
  assumes "CHR ''/'' \<notin> set province_code" and "CHR ''/'' \<notin> set current_date"
  shows "region_num_of (stored_path base_folder province_code current_date) = Inl ValueError \<and>
         process_csv \<lparr>file_path = stored_path base_folder province_code current_date,
                      read_csv = content\<rparr> = Inl ValueError"
proof -
  have "CHR ''/'' \<notin> set (file_name province_code current_date)"
    using assms by (simp add: file_name_def)
  then have "basename (stored_path base_folder province_code current_date)
      = file_name province_code current_date"
    unfolding stored_path_def by (rule basename_join)
  then have "region_num_of (stored_path base_folder province_code current_date) = Inl ValueError"
    using file_name_third_segment[of province_code current_date]
    by (simp add: region_num_of_def py_int_empty)
  then show ?thesis
    by (simp add: process_csv_def)
qed

theorem load_data_name_not_parsed_witness:
  "region_num_of (stored_path ''data_csv'' ''5'' ''2024-05-01_10-30'') = Inl ValueError \<and>
   process_csv \<lparr>file_path = stored_path ''data_csv'' ''5'' ''2024-05-01_10-30'',
                read_csv = Inr [sample_first, sample_no_data, sample_footer]\<rparr> = Inl ValueError"
  using load_data_name_not_parsed[of "''5''" "''2024-05-01_10-30''" "''data_csv''"]
  by simp

section \<open>Queries that match nothing\<close>

text \<open>
  Claim C9: for a region name that is not in the region table, \<open>filter_data\<close> returns
  an empty result and raises nothing, and so it does when the filters match no row. The
  name of the parameter is one of \<open>VCI\<close>, \<open>TCI\<close>, \<open>VHI\<close>, and \<open>sort_values\<close> reorders
  the rows it is given.
\<close>

theorem filter_data_no_match_is_empty:
  assumes "reorders sort_values"
    and "parameter \<in> {''VCI'', ''TCI'', ''VHI''}"
    and "region_names_to_id region = None \<or>
         (\<forall>r\<in>set df. \<not> row_mask years_interval weeks_interval (region_names_to_id region) r)"
  shows "filter_data sort_values df years_interval weeks_interval region sort_option parameter
           = Inr []"
proof -
  from assms(3)
  have none: "filter (row_mask years_interval weeks_interval (region_names_to_id region)) df = []"
    by (auto simp: filter_empty_conv row_mask_def)
  from column_parameter[OF assms(2)] obtain key where "column parameter = Some key"
    by blast
  with none show ?thesis
    by (simp add: filter_data_def reorders_Nil[OF assms(1)])
qed

theorem filter_data_no_match_is_empty_witness:
  "filter_data sort_values_stable [sample_query_row] (1981, 2025) (1, 52)
     [65, 116, 108, 97, 110, 116, 105, 115] sort_descending ''VHI'' = Inr [] \<and>
   filter_data sort_values_stable [sample_query_row] (1990, 2025) (1, 52)
     [1050, 1080, 1111, 1074, 1089, 1100, 1082, 1072] sort_ascending ''VHI'' = Inr []"
proof -
  have p: "''VHI'' \<in> {''VCI'', ''TCI'', ''VHI''}"
    by simp
  have a: "region_names_to_id [65, 116, 108, 97, 110, 116, 105, 115] = None \<or>
      (\<forall>r\<in>set [sample_query_row]. \<not> row_mask (1981, 2025) (1, 52)
          (region_names_to_id [65, 116, 108, 97, 110, 116, 105, 115]) r)"
    by (simp add: region_names_to_id_def regions_true_id_def)
  have b: "region_names_to_id [1050, 1080, 1111, 1074, 1089, 1100, 1082, 1072] = None \<or>
      (\<forall>r\<in>set [sample_query_row]. \<not> row_mask (1990, 2025) (1, 52)
          (region_names_to_id [1050, 1080, 1111, 1074, 1089, 1100, 1082, 1072]) r)"
    by (simp add: row_mask_def between_def sample_query_row_def)
  from filter_data_no_match_is_empty[OF reorders_stable p a]
    filter_data_no_match_is_empty[OF reorders_stable p b]
  show ?thesis
    by simp
qed

end
